theory Spec2Isabelle
  imports Complex_Main
begin

section \<open>Data model (app/engine/models.py)\<close>

text \<open>
  Python exceptions are values. \<open>KeyError\<close> is what the dictionaries and the two
  stores raise, \<open>TypeError\<close> what an unsupported comparison and a non-callable
  registration raise, \<open>AttributeError\<close> what \<open>getattr\<close> raises on an unknown name.
  \<open>OtherError\<close> stands for any other exception a tool may raise. The string is the
  exception's argument.
\<close>

datatype error =
    is_KeyError: KeyError string
  | TypeError string
  | AttributeError string
  | OtherError string

text \<open>The values of \<open>Dict[str, Any]\<close> that the workflow stores in \<open>issues\<close>.\<close>

datatype any_val = AnyInt int | AnyStr string

text \<open>
  \<open>CodeReviewState\<close>. The field \<open>functions\<close> is named \<open>functions_list\<close>, since
  \<open>functions\<close> is a reserved word. The two \<open>float\<close> fields are modelled by the real
  number the float denotes: the engine only compares them, and a comparison of finite
  floats (and of an \<open>int\<close> with a float) is exact in Python. NaN is outside the model.
\<close>

record CodeReviewState =
  code :: string
  functions_list :: "string list"
  complexity :: "(string \<times> int) list"
  issues :: "(string \<times> any_val) list list"
  suggestions :: "string list"
  quality_score :: real
  threshold :: real
  iteration :: int

text \<open>
  \<open>NodeConfig\<close>. \<open>condition_op\<close> is kept as the string the function receives at run
  time; the \<open>Literal\<close> annotation of the field is \<open>condition_op_literal\<close> below.
\<close>

record NodeConfig =
  name :: string
  tool :: string
  next_node :: "string option"
  condition_key :: "string option"
  condition_op :: "string option"
  condition_value :: "real option"
  next_on_success :: "string option"
  next_on_failure :: "string option"

definition supported_ops :: "string list" where
  "supported_ops = [''>='', ''>'', ''<='', ''<'', ''=='']"

definition condition_op_literal :: "string option \<Rightarrow> bool" where
  "condition_op_literal op =
     (case op of None \<Rightarrow> True | Some s \<Rightarrow> s \<in> set supported_ops)"

record Graph =
  graph_ident :: string
  start_node :: string
  nodes :: "string \<rightharpoonup> NodeConfig"

text \<open>
  \<open>ExecutionLogEntry\<close>. The snapshot is \<open>run.state.dict()\<close>, the dictionary of the
  state's field values, represented by the record of those values. The timestamp is a
  clock reading (microseconds).
\<close>

record ExecutionLogEntry =
  node :: string
  timestamp :: int
  state_snapshot :: CodeReviewState

record GraphRun =
  run_id :: string
  graph_id :: string
  current_node :: "string option"
  state :: CodeReviewState
  run_log :: "ExecutionLogEntry list"
  finished :: bool

section \<open>Python values and truthiness\<close>

text \<open>
  What \<open>getattr(state, key)\<close> yields: a number, a string, a list, a dictionary, or any
  other object (a bound method, for one).
\<close>

datatype pyval = PyNum real | PyStr string | PyList | PyDict | PyObject

text \<open>\<open>not x\<close> for an \<open>Optional[str]\<close>: both \<open>None\<close> and the empty string are falsy.\<close>

fun truthy :: "string option \<Rightarrow> bool" where
  "truthy None = False"
| "truthy (Some s) = (s \<noteq> [])"

text \<open>\<open>a or b\<close> on \<open>Optional[str]\<close>.\<close>

definition py_or :: "string option \<Rightarrow> string option \<Rightarrow> string option" where
  "py_or a b = (if truthy a then a else b)"

text \<open>
  \<open>getattr\<close> on a \<open>CodeReviewState\<close>: the eight declared fields first. For any other
  name the answer lies with pydantic's \<open>BaseModel\<close>, which is not part of the repository:
  \<open>inherited\<close> gives the object the base class provides under a name (\<open>dict\<close> is a bound
  method, for one), and \<open>None\<close> for a name it does not know, where \<open>getattr\<close> raises
  \<open>AttributeError\<close>. The parameter runs through the engine's functions below.
\<close>

definition getattr_state :: "(string \<rightharpoonup> pyval) \<Rightarrow> CodeReviewState \<Rightarrow> string \<Rightarrow> error + pyval" where
  "getattr_state inherited s k =
     (if k = ''code'' then Inr (PyStr (code s))
      else if k = ''functions'' then Inr PyList
      else if k = ''complexity'' then Inr PyDict
      else if k = ''issues'' then Inr PyList
      else if k = ''suggestions'' then Inr PyList
      else if k = ''quality_score'' then Inr (PyNum (quality_score s))
      else if k = ''threshold'' then Inr (PyNum (threshold s))
      else if k = ''iteration'' then Inr (PyNum (of_int (iteration s)))
      else (case inherited k of None \<Rightarrow> Inl (AttributeError k) | Some v \<Rightarrow> Inr v))"

text \<open>
  The ordering operators against a float raise \<open>TypeError\<close> on a string, a list, a
  dictionary or a method (the operator's symbol is kept as the argument); \<open>==\<close> is
  defined on every pair of objects and is false across types.
\<close>

definition py_order :: "(real \<Rightarrow> real \<Rightarrow> bool) \<Rightarrow> string \<Rightarrow> pyval \<Rightarrow> real \<Rightarrow> error + bool" where
  "py_order rel opname v t =
     (case v of PyNum x \<Rightarrow> Inr (rel x t) | _ \<Rightarrow> Inl (TypeError opname))"

definition py_eq :: "pyval \<Rightarrow> real \<Rightarrow> error + bool" where
  "py_eq v t = (case v of PyNum x \<Rightarrow> Inr (x = t) | _ \<Rightarrow> Inr False)"

section \<open>The branch decision (app/engine/engine.py, \<open>_decide_next_node\<close>)\<close>

text \<open>The \<open>if\<close>/\<open>elif\<close> chain over the operator; \<open>is_ok\<close> starts as \<open>False\<close>.\<close>

definition eval_condition :: "string \<Rightarrow> pyval \<Rightarrow> real \<Rightarrow> error + bool" where
  "eval_condition op v t =
     (if op = ''>='' then py_order (\<lambda>x y. x \<ge> y) ''>='' v t
      else if op = ''>'' then py_order (\<lambda>x y. x > y) ''>'' v t
      else if op = ''<='' then py_order (\<lambda>x y. x \<le> y) ''<='' v t
      else if op = ''<'' then py_order (\<lambda>x y. x < y) ''<'' v t
      else if op = ''=='' then py_eq v t
      else Inr False)"

definition decide_next_node :: "(string \<rightharpoonup> pyval) \<Rightarrow> NodeConfig \<Rightarrow> CodeReviewState \<Rightarrow> error + string option" where
  "decide_next_node inherited node_cfg st =
     (if \<not> truthy (condition_key node_cfg) then Inr (next_node node_cfg)
      else
        (case condition_key node_cfg of
           None \<Rightarrow> Inr (next_node node_cfg)
         | Some key \<Rightarrow>
             (case getattr_state inherited st key of
                Inl e \<Rightarrow> Inl e
              | Inr v \<Rightarrow>
                  (case (condition_op node_cfg, condition_value node_cfg) of
                     (Some op, Some target) \<Rightarrow>
                       (case eval_condition op v target of
                          Inl e \<Rightarrow> Inl e
                        | Inr is_ok \<Rightarrow>
                            if is_ok then Inr (next_on_success node_cfg)
                            else Inr (py_or (next_on_failure node_cfg) (next_node node_cfg)))
                   | _ \<Rightarrow> Inr (next_node node_cfg)))))"

section \<open>The tool registry (app/engine/registry.py)\<close>

text \<open>
  A tool takes the state and returns a state or raises. The engine re-wraps a returned
  value that is not a \<open>CodeReviewState\<close> into one; the function below stands for the
  tool followed by that normalisation.
\<close>

type_synonym ToolFunc = "CodeReviewState \<Rightarrow> error + CodeReviewState"

text \<open>An object handed to \<open>register\<close>: a callable, or a value that is not callable.\<close>

datatype pyobj = Callable ToolFunc | NotCallable any_val

fun callable :: "pyobj \<Rightarrow> bool" where
  "callable (Callable f) = True"
| "callable (NotCallable v) = False"

text \<open>
  \<open>ToolRegistry.register\<close> on the dictionary \<open>_tools\<close>: the result and the dictionary
  afterwards.
\<close>

definition register :: "(string \<rightharpoonup> pyobj) \<Rightarrow> string \<Rightarrow> pyobj \<Rightarrow> (error + unit) \<times> (string \<rightharpoonup> pyobj)" where
  "register tls nm func =
     (if \<not> callable func then (Inl (TypeError ''Tool must be callable''), tls)
      else (Inr (), tls(nm \<mapsto> func)))"

definition tool_not_registered :: "string \<Rightarrow> string" where
  "tool_not_registered nm = ''Tool '' @ [CHR 0x27] @ nm @ [CHR 0x27] @ '' not registered''"

definition tool_registry_get :: "(string \<rightharpoonup> pyobj) \<Rightarrow> string \<Rightarrow> error + pyobj" where
  "tool_registry_get tls nm =
     (case tls nm of None \<Rightarrow> Inl (KeyError (tool_not_registered nm)) | Some f \<Rightarrow> Inr f)"

section \<open>The stores (app/storage/memory_store.py)\<close>

text \<open>
  The process-wide objects: \<open>graph_store._graphs\<close>, \<open>run_store._runs\<close> and
  \<open>tool_registry._tools\<close>. The run store reads the one graph store, as
  \<open>RunStore(graph_store=graph_store)\<close> wires it.
\<close>

record World =
  graphs :: "string \<rightharpoonup> Graph"
  runs :: "string \<rightharpoonup> GraphRun"
  tools :: "string \<rightharpoonup> pyobj"

definition graph_not_found :: "string \<Rightarrow> string" where
  "graph_not_found gid = ''Graph '' @ [CHR 0x27] @ gid @ [CHR 0x27] @ '' not found''"

definition graph_store_save :: "World \<Rightarrow> Graph \<Rightarrow> World" where
  "graph_store_save w g = w\<lparr>graphs := (graphs w)(graph_ident g \<mapsto> g)\<rparr>"

definition graph_store_get :: "World \<Rightarrow> string \<Rightarrow> error + Graph" where
  "graph_store_get w gid =
     (case graphs w gid of None \<Rightarrow> Inl (KeyError (graph_not_found gid)) | Some g \<Rightarrow> Inr g)"

text \<open>
  \<open>RunStore.create\<close>. \<open>new_id\<close> is the string \<open>str(uuid.uuid4())\<close> produced for this
  call; the generator is outside the program.
\<close>

definition run_store_create :: "string \<Rightarrow> World \<Rightarrow> string \<Rightarrow> CodeReviewState \<Rightarrow> (error + GraphRun) \<times> World" where
  "run_store_create new_id w gid st =
     (case graph_store_get w gid of
        Inl e \<Rightarrow> (Inl e, w)
      | Inr g \<Rightarrow>
          (let run = \<lparr>run_id = new_id, graph_id = gid, current_node = Some (start_node g),
                      state = st, run_log = [], finished = False\<rparr>
           in (Inr run, w\<lparr>runs := (runs w)(new_id \<mapsto> run)\<rparr>)))"

definition run_store_update :: "World \<Rightarrow> GraphRun \<Rightarrow> World" where
  "run_store_update w run = w\<lparr>runs := (runs w)(run_id run \<mapsto> run)\<rparr>"

definition run_not_found :: "string \<Rightarrow> string" where
  "run_not_found rid = ''Run '' @ [CHR 0x27] @ rid @ [CHR 0x27] @ '' not found''"

definition run_store_get :: "World \<Rightarrow> string \<Rightarrow> error + GraphRun" where
  "run_store_get w rid =
     (case runs w rid of None \<Rightarrow> Inl (KeyError (run_not_found rid)) | Some r \<Rightarrow> Inr r)"

section \<open>The engine (app/engine/engine.py, \<open>run_graph\<close>)\<close>

record GraphEngine =
  max_iterations :: int

datatype outcome = Returned GraphRun | Raised error GraphRun

datatype step = Continue GraphRun | Stop outcome

text \<open>
  Calling a registered object with the state. Every registered object is callable
  (\<open>register\<close> checks it); the second case is Python's error on calling a value that is
  not.
\<close>

fun call_tool :: "pyobj \<Rightarrow> CodeReviewState \<Rightarrow> error + CodeReviewState" where
  "call_tool (Callable f) st = f st"
| "call_tool (NotCallable v) st = Inl (TypeError ''object is not callable'')"

text \<open>
  One pass of the \<open>while\<close> loop, its condition included. \<open>clock\<close> gives the reading of
  \<open>run_store.now()\<close> at each call, numbered by the entries logged so far. A raise leaves
  the run as mutated up to that point.
\<close>

definition loop_step :: "(string \<rightharpoonup> pyval) \<Rightarrow> (nat \<Rightarrow> int) \<Rightarrow> int \<Rightarrow> (string \<rightharpoonup> pyobj) \<Rightarrow> Graph \<Rightarrow> GraphRun \<Rightarrow> step" where
  "loop_step inherited clock max_it tls graph run =
     (case current_node run of
        None \<Rightarrow> Stop (Returned run)
      | Some cur \<Rightarrow>
          if finished run then Stop (Returned run)
          else if iteration (state run) \<ge> max_it then Stop (Returned (run\<lparr>finished := True\<rparr>))
          else
            (case nodes graph cur of
               None \<Rightarrow> Stop (Raised (KeyError cur) run)
             | Some node_cfg \<Rightarrow>
                 (case tool_registry_get tls (tool node_cfg) of
                    Inl e \<Rightarrow> Stop (Raised e run)
                  | Inr tool_f \<Rightarrow>
                      (case call_tool tool_f (state run) of
                         Inl e \<Rightarrow> Stop (Raised e run)
                       | Inr new_state \<Rightarrow>
                           (let log_entry = \<lparr>node = name node_cfg,
                                             timestamp = clock (length (run_log run)),
                                             state_snapshot = new_state\<rparr>;
                                run1 = run\<lparr>state := new_state,
                                           run_log := run_log run @ [log_entry]\<rparr>
                            in (case decide_next_node inherited node_cfg new_state of
                                  Inl e \<Rightarrow> Stop (Raised e run1)
                                | Inr None \<Rightarrow>
                                    Stop (Returned (run1\<lparr>current_node := None, finished := True\<rparr>))
                                | Inr (Some nxt) \<Rightarrow>
                                    Continue (run1\<lparr>current_node := Some nxt\<rparr>)))))))"

text \<open>
  The loop. The fuel bounds the number of passes; \<open>None\<close> means the loop was still
  running when the fuel ran out.
\<close>

fun run_loop :: "(string \<rightharpoonup> pyval) \<Rightarrow> nat \<Rightarrow> (nat \<Rightarrow> int) \<Rightarrow> int \<Rightarrow> (string \<rightharpoonup> pyobj) \<Rightarrow> Graph \<Rightarrow> GraphRun \<Rightarrow> outcome option" where
  "run_loop inherited 0 clock max_it tls graph run = None"
| "run_loop inherited (Suc fuel) clock max_it tls graph run =
     (case loop_step inherited clock max_it tls graph run of
        Stop out \<Rightarrow> Some out
      | Continue run' \<Rightarrow> run_loop inherited fuel clock max_it tls graph run')"

text \<open>
  \<open>run_graph\<close>. The run the loop mutates is the object the run store holds, so the store
  shows the run as it stood when an exception left the loop; on a normal exit
  \<open>run_store.update\<close> writes it.
\<close>

definition run_graph :: "(string \<rightharpoonup> pyval) \<Rightarrow> nat \<Rightarrow> (nat \<Rightarrow> int) \<Rightarrow> string \<Rightarrow> GraphEngine \<Rightarrow> World \<Rightarrow> string \<Rightarrow> CodeReviewState \<Rightarrow> ((error + GraphRun) \<times> World) option" where
  "run_graph inherited fuel clock new_id engine w gid initial_state =
     (case graph_store_get w gid of
        Inl e \<Rightarrow> Some (Inl e, w)
      | Inr graph \<Rightarrow>
          (case run_store_create new_id w gid initial_state of
             (Inl e, w1) \<Rightarrow> Some (Inl e, w1)
           | (Inr run, w1) \<Rightarrow>
               (case run_loop inherited fuel clock (max_iterations engine) (tools w1) graph run of
                  None \<Rightarrow> None
                | Some (Raised e r) \<Rightarrow> Some (Inl e, w1\<lparr>runs := (runs w1)(run_id r \<mapsto> r)\<rparr>)
                | Some (Returned r) \<Rightarrow> Some (Inr r, run_store_update w1 r))))"

section \<open>The HTTP endpoint (app/main.py, \<open>POST /graph/run\<close>)\<close>

text \<open>
  The handler answers a \<open>KeyError\<close> of \<open>run_graph\<close> with \<open>HTTPException\<close> of status 404,
  lets every other exception pass, and otherwise builds the response from the run.
\<close>

datatype endpoint_result = Response GraphRun | HTTPException nat | Unhandled error

fun run_graph_endpoint :: "error + GraphRun \<Rightarrow> endpoint_result" where
  "run_graph_endpoint (Inr run) = Response run"
| "run_graph_endpoint (Inl (KeyError msg)) = HTTPException 404"
| "run_graph_endpoint (Inl e) = Unhandled e"

section \<open>A tool of the workflow (app/workflows/code_review.py, \<open>extract_functions\<close>)\<close>

text \<open>
  \<open>extract_functions\<close> stores the names of the function definitions of \<open>state.code\<close> in
  \<open>state.functions\<close> and returns the state; no other field changes. \<open>parse_functions\<close>
  stands for \<open>ast.parse\<close> followed by \<open>ast.walk\<close>, with a \<open>SyntaxError\<close> already turned
  into the empty list as the function does; it is \<open>Inl\<close> for any other exception of the
  parser, which the tool lets pass.
\<close>

definition extract_functions :: "(string \<Rightarrow> error + string list) \<Rightarrow> ToolFunc" where
  "extract_functions parse_functions st =
     (case parse_functions (code st) of
        Inl e \<Rightarrow> Inl e
      | Inr names \<Rightarrow> Inr (st\<lparr>functions_list := names\<rparr>))"

section \<open>Definitions that follow the specification's words\<close>

text \<open>
  The comparison as the specification words it: \<open>value OP conditionValue\<close> on numbers,
  for the five operators.
\<close>

definition compare_spec :: "string \<Rightarrow> real \<Rightarrow> real \<Rightarrow> bool" where
  "compare_spec op x t =
     (if op = ''>='' then x \<ge> t
      else if op = ''>'' then x > t
      else if op = ''<='' then x \<le> t
      else if op = ''<'' then x < t
      else x = t)"

text \<open>
  The \<open>nextNode\<close> chain of the specification: a list of node names, each the
  \<open>next_node\<close> of the one before, whose last node has no \<open>next_node\<close>.
\<close>

fun next_chain :: "Graph \<Rightarrow> string list \<Rightarrow> bool" where
  "next_chain g [] = False"
| "next_chain g [k] = (case nodes g k of None \<Rightarrow> False | Some cfg \<Rightarrow> next_node cfg = None)"
| "next_chain g (k # k' # ks) =
     (case nodes g k of
        None \<Rightarrow> False
      | Some cfg \<Rightarrow> next_node cfg = Some k' \<and> next_chain g (k' # ks))"

text \<open>
  The states along a list of nodes: each node's tool applied to the state the previous one
  returned. \<open>None\<close> when a node or a tool is missing or a tool raises.
\<close>

fun chain_states :: "(string \<rightharpoonup> pyobj) \<Rightarrow> Graph \<Rightarrow> string list \<Rightarrow> CodeReviewState \<Rightarrow> CodeReviewState list option" where
  "chain_states tls g [] s = Some []"
| "chain_states tls g (k # ks) s =
     (case nodes g k of
        None \<Rightarrow> None
      | Some cfg \<Rightarrow>
          (case tls (tool cfg) of
             None \<Rightarrow> None
           | Some tf \<Rightarrow>
               (case call_tool tf s of
                  Inl e \<Rightarrow> None
                | Inr s' \<Rightarrow> map_option ((#) s') (chain_states tls g ks s'))))"

text \<open>The \<open>name\<close> fields of the nodes a list of keys refers to.\<close>

definition chain_names :: "Graph \<Rightarrow> string list \<Rightarrow> string list" where
  "chain_names g ks = List.map_filter (\<lambda>k. map_option name (nodes g k)) ks"

section \<open>Concrete inputs\<close>

text \<open>Attributes of the base class, for the closed examples: one method.\<close>

definition inherited_example :: "string \<rightharpoonup> pyval" where
  "inherited_example = [''dict'' \<mapsto> PyObject]"

definition st0 :: CodeReviewState where
  "st0 = \<lparr>code = ''x = 1'', functions_list = [], complexity = [], issues = [], suggestions = [],
          quality_score = 0, threshold = 8 / 10, iteration = 0\<rparr>"

text \<open>The last node of the default graph, with every edge given a target.\<close>

definition cfg_branch :: NodeConfig where
  "cfg_branch = \<lparr>name = ''suggest'', tool = ''suggest_improvements'', next_node = Some ''retry'',
      condition_key = Some ''quality_score'', condition_op = Some ''>='',
      condition_value = Some (8 / 10), next_on_success = Some ''done'',
      next_on_failure = Some ''extract''\<rparr>"

text \<open>A tool that returns the state as it is, and one that counts a pass.\<close>

definition tool_keep :: pyobj where
  "tool_keep = Callable (\<lambda>s. Inr s)"

definition tool_pass :: pyobj where
  "tool_pass = Callable (\<lambda>s. Inr (s\<lparr>iteration := iteration s + 1\<rparr>))"

text \<open>A node with a condition field and no operator.\<close>

definition cfg_partial :: NodeConfig where
  "cfg_partial = \<lparr>name = ''a'', tool = ''keep'', next_node = None,
      condition_key = Some ''quality_score'', condition_op = None,
      condition_value = Some (8 / 10), next_on_success = Some ''a'',
      next_on_failure = Some ''a''\<rparr>"

definition world_partial :: World where
  "world_partial =
     \<lparr>graphs = [''g'' \<mapsto> \<lparr>graph_ident = ''g'', start_node = ''a'', nodes = [''a'' \<mapsto> cfg_partial]\<rparr>],
      runs = Map.empty, tools = [''keep'' \<mapsto> tool_keep]\<rparr>"

text \<open>A one-node graph whose node leads back to itself, with a tool that counts passes.\<close>

definition cfg_spin :: NodeConfig where
  "cfg_spin = \<lparr>name = ''a'', tool = ''t'', next_node = Some ''a'',
      condition_key = None, condition_op = None, condition_value = None,
      next_on_success = None, next_on_failure = None\<rparr>"

definition graph_spin :: Graph where
  "graph_spin = \<lparr>graph_ident = ''g'', start_node = ''a'', nodes = [''a'' \<mapsto> cfg_spin]\<rparr>"


text \<open>A graph whose edge names a node that does not exist, and a world without tools.\<close>

definition graph_dangling :: Graph where
  "graph_dangling = \<lparr>graph_ident = ''g'', start_node = ''a'',
      nodes = [''a'' \<mapsto> cfg_spin\<lparr>next_node := Some ''ghost''\<rparr>]\<rparr>"

definition world_dangling :: World where
  "world_dangling = \<lparr>graphs = [''g'' \<mapsto> graph_dangling], runs = Map.empty, tools = [''t'' \<mapsto> tool_keep]\<rparr>"

definition world_no_tool :: World where
  "world_no_tool = \<lparr>graphs = [''g'' \<mapsto> graph_spin], runs = Map.empty, tools = Map.empty\<rparr>"

text \<open>A linear graph of three nodes.\<close>

definition cfg_of :: "string \<Rightarrow> string \<Rightarrow> string option \<Rightarrow> NodeConfig" where
  "cfg_of nm tool_nm nxt = \<lparr>name = nm, tool = tool_nm, next_node = nxt,
      condition_key = None, condition_op = None, condition_value = None,
      next_on_success = None, next_on_failure = None\<rparr>"

definition graph_linear :: Graph where
  "graph_linear = \<lparr>graph_ident = ''lin'', start_node = ''a'',
      nodes = [''a'' \<mapsto> cfg_of ''a'' ''keep'' (Some ''b''),
               ''b'' \<mapsto> cfg_of ''b'' ''keep'' (Some ''c''),
               ''c'' \<mapsto> cfg_of ''c'' ''pass'' None]\<rparr>"

definition world_linear :: World where
  "world_linear = \<lparr>graphs = [''lin'' \<mapsto> graph_linear], runs = Map.empty,
      tools = [''keep'' \<mapsto> tool_keep, ''pass'' \<mapsto> tool_pass]\<rparr>"



text \<open>
  A graph that can be posted to \<open>/graph/create\<close>: one node, bound to the registered tool
  \<open>extract_functions\<close>, whose \<open>next_node\<close> is the node itself.
\<close>

definition graph_extract_loop :: Graph where
  "graph_extract_loop = \<lparr>graph_ident = ''loop'', start_node = ''extract'',
      nodes = [''extract'' \<mapsto> cfg_of ''extract'' ''extract_functions'' (Some ''extract'')]\<rparr>"

section \<open>Auxiliary facts\<close>

lemma eval_condition_num:
  "op \<in> set supported_ops \<Longrightarrow> eval_condition op (PyNum x) t = Inr (compare_spec op x t)"
  by (auto simp: eval_condition_def compare_spec_def supported_ops_def py_order_def py_eq_def)

text \<open>More fuel does not change a result.\<close>

lemma run_loop_more_fuel:
  "run_loop inherited n clock max_it tls graph run = Some out \<Longrightarrow>
   run_loop inherited (n + m) clock max_it tls graph run = Some out"
proof (induction n arbitrary: run)
  case 0
  then show ?case by simp
next
  case (Suc n)
  then show ?case by (cases "loop_step inherited clock max_it tls graph run") auto
qed


lemma loop_step_continue:
  assumes "current_node run = Some n" "\<not> finished run" "iteration (state run) < max_it"
    and "nodes graph n = Some cfg" "tls (tool cfg) = Some tf"
    and "call_tool tf (state run) = Inr s'"
    and "decide_next_node inherited cfg s' = Inr (Some n')"
  shows "loop_step inherited clock max_it tls graph run =
     Continue (run\<lparr>state := s',
        run_log := run_log run @ [\<lparr>node = name cfg, timestamp = clock (length (run_log run)),
                                   state_snapshot = s'\<rparr>],
        current_node := Some n'\<rparr>)"
  using assms by (simp add: loop_step_def tool_registry_get_def Let_def)

text \<open>\<open>run_graph\<close> on a stored graph, in terms of the loop.\<close>

lemma run_graph_known_graph:
  "graphs w gid = Some g \<Longrightarrow>
   run_graph inherited fuel clock new_id eng w gid s0 =
     (case run_loop inherited fuel clock (max_iterations eng) (tools w) g
         \<lparr>run_id = new_id, graph_id = gid, current_node = Some (start_node g),
          state = s0, run_log = [], finished = False\<rparr> of
        None \<Rightarrow> None
      | Some (Returned r) \<Rightarrow>
          Some (Inr r, w\<lparr>runs := ((runs w)(new_id \<mapsto>
             \<lparr>run_id = new_id, graph_id = gid, current_node = Some (start_node g),
              state = s0, run_log = [], finished = False\<rparr>))(run_id r \<mapsto> r)\<rparr>)
      | Some (Raised e r) \<Rightarrow>
          Some (Inl e, w\<lparr>runs := ((runs w)(new_id \<mapsto>
             \<lparr>run_id = new_id, graph_id = gid, current_node = Some (start_node g),
              state = s0, run_log = [], finished = False\<rparr>))(run_id r \<mapsto> r)\<rparr>))"
  by (simp add: run_graph_def graph_store_get_def run_store_create_def run_store_update_def Let_def
      split: option.splits outcome.splits)


text \<open>
  A node that leads back to itself through a tool that returns and leaves \<open>iteration\<close> as
  it is: below the guard, the loop is still running after any number of passes.
\<close>

lemma uncounted_loop_never_returns:
  assumes g: "nodes graph n = Some cfg" "tls (tool cfg) = Some tf"
    and same: "\<forall>s. \<exists>s'. call_tool tf s = Inr s' \<and> iteration s' = iteration s"
    and loop: "\<forall>s. decide_next_node inherited cfg s = Inr (Some n)"
  shows "current_node run = Some n \<Longrightarrow> \<not> finished run \<Longrightarrow> iteration (state run) < max_it \<Longrightarrow>
     run_loop inherited fuel clock max_it tls graph run = None"
proof (induction fuel arbitrary: run)
  case 0
  then show ?case by simp
next
  case (Suc fuel)
  from same obtain s' where s': "call_tool tf (state run) = Inr s'" "iteration s' = iteration (state run)"
    by blast
  let ?run' = "run\<lparr>state := s',
        run_log := run_log run @ [\<lparr>node = name cfg, timestamp = clock (length (run_log run)),
                                   state_snapshot = s'\<rparr>],
        current_node := Some n\<rparr>"
  have step: "loop_step inherited clock max_it tls graph run = Continue ?run'"
    using Suc.prems g s'(1) loop
    by (intro loop_step_continue [where tls = tls and tf = tf and cfg = cfg]) auto
  have "run_loop inherited fuel clock max_it tls graph ?run' = None"
    using Suc.prems s'(2) by (intro Suc.IH) simp_all
  with step show ?case by simp
qed

text \<open>Chains: lengths, suffixes, uniqueness, and hence no repeated node.\<close>

lemma chain_states_length:
  "chain_states tls g ks s = Some ss \<Longrightarrow> length ss = length ks"
  by (induction ks arbitrary: s ss) (auto split: option.splits sum.splits)

lemma next_chain_suffix:
  "next_chain g (xs @ ys) \<Longrightarrow> ys \<noteq> [] \<Longrightarrow> next_chain g ys"
proof (induction xs)
  case Nil
  then show ?case by simp
next
  case (Cons x xs)
  then show ?case
    by (cases "xs @ ys") (auto split: option.splits)
qed

lemma next_chain_unique:
  "next_chain g (k # xs) \<Longrightarrow> next_chain g (k # ys) \<Longrightarrow> xs = ys"
proof (induction xs arbitrary: k ys)
  case Nil
  then show ?case by (cases ys) (auto split: option.splits)
next
  case (Cons x xs)
  then show ?case by (cases ys) (auto split: option.splits)
qed

lemma next_chain_distinct:
  "next_chain g ks \<Longrightarrow> distinct ks"
proof (induction ks)
  case Nil
  then show ?case by simp
next
  case (Cons k ks)
  have tail: "distinct ks"
  proof (cases ks)
    case Nil
    then show ?thesis by simp
  next
    case (Cons k' ks')
    with Cons.prems have "next_chain g ks" by (auto split: option.splits)
    then show ?thesis by (rule Cons.IH)
  qed
  have "k \<notin> set ks"
  proof
    assume "k \<in> set ks"
    then obtain as bs where ks: "ks = as @ k # bs" by (auto dest: split_list)
    from Cons.prems ks have "next_chain g ((k # as) @ (k # bs))" by simp
    then have "next_chain g (k # bs)" by (rule next_chain_suffix) simp
    with Cons.prems ks have "as @ k # bs = bs" by (auto dest: next_chain_unique)
    then have "length (as @ k # bs) = length bs" by simp
    then show False by simp
  qed
  with tail show ?case by simp
qed

lemma chain_names_Cons:
  "nodes g k = Some cfg \<Longrightarrow> chain_names g (k # ks) = name cfg # chain_names g ks"
  by (simp add: chain_names_def List.map_filter_simps)

lemma chain_names_keys:
  "\<forall>k cfg. nodes g k = Some cfg \<longrightarrow> name cfg = k \<Longrightarrow> set ks \<subseteq> dom (nodes g) \<Longrightarrow>
   chain_names g ks = ks"
  by (induction ks) (auto simp: chain_names_def List.map_filter_simps)

lemma next_chain_dom:
  "next_chain g ks \<Longrightarrow> set ks \<subseteq> dom (nodes g)"
  by (induction g ks rule: next_chain.induct) (auto split: option.splits)

text \<open>The loop along a chain of nodes without conditions.\<close>

lemma chain_run:
  assumes uncond: "\<forall>cfg \<in> ran (nodes g). \<not> truthy (condition_key cfg)"
  shows "next_chain g (k # ks) \<Longrightarrow> chain_states tls g (k # ks) (state run) = Some ss \<Longrightarrow>
     \<forall>s \<in> set (butlast (state run # ss)). iteration s < max_it \<Longrightarrow>
     current_node run = Some k \<Longrightarrow> \<not> finished run \<Longrightarrow>
     \<exists>r. run_loop inherited (Suc (length ks)) clock max_it tls g run = Some (Returned r)
        \<and> map node (run_log r) = map node (run_log run) @ chain_names g (k # ks)
        \<and> map state_snapshot (run_log r) = map state_snapshot (run_log run) @ ss
        \<and> finished r \<and> current_node r = None \<and> run_id r = run_id run"
proof (induction ks arbitrary: k run ss)
  case Nil
  from Nil.prems(1) obtain cfg where cfg: "nodes g k = Some cfg" "next_node cfg = None"
    by (auto split: option.splits)
  from Nil.prems(2) cfg obtain tf s' where t: "tls (tool cfg) = Some tf"
    "call_tool tf (state run) = Inr s'" "ss = [s']"
    by (auto split: option.splits sum.splits)
  from uncond cfg(1) have "\<not> truthy (condition_key cfg)" by (auto simp: ran_def)
  then have d: "decide_next_node inherited cfg s' = Inr None"
    using cfg(2) by (simp add: decide_next_node_def)
  have lt: "iteration (state run) < max_it" using Nil.prems(3) t(3) by simp
  show ?case
    using Nil.prems(4,5) lt cfg t d
    by (simp add: loop_step_def tool_registry_get_def Let_def chain_names_Cons chain_names_def
        List.map_filter_simps)
next
  case (Cons k' ks)
  from Cons.prems(1) obtain cfg where cfg: "nodes g k = Some cfg" "next_node cfg = Some k'"
    "next_chain g (k' # ks)"
    by (auto split: option.splits)
  from Cons.prems(2) cfg obtain tf s' ss' where t: "tls (tool cfg) = Some tf"
    "call_tool tf (state run) = Inr s'" "ss = s' # ss'"
    "chain_states tls g (k' # ks) s' = Some ss'"
    by (auto split: option.splits sum.splits)
  from chain_states_length [OF t(4)] have ne: "ss' \<noteq> []" by auto
  from uncond cfg(1) have "\<not> truthy (condition_key cfg)" by (auto simp: ran_def)
  then have d: "decide_next_node inherited cfg s' = Inr (Some k')"
    using cfg(2) by (simp add: decide_next_node_def)
  have lt: "iteration (state run) < max_it" using Cons.prems(3) t(3) by simp
  have rest: "\<forall>s \<in> set (butlast (s' # ss')). iteration s < max_it"
    using Cons.prems(3) t(3) ne by simp
  let ?run' = "run\<lparr>state := s',
        run_log := run_log run @ [\<lparr>node = name cfg, timestamp = clock (length (run_log run)),
                                   state_snapshot = s'\<rparr>],
        current_node := Some k'\<rparr>"
  have step: "loop_step inherited clock max_it tls g run = Continue ?run'"
    using Cons.prems(4,5) lt cfg(1) t(1,2) d
    by (intro loop_step_continue [where tls = tls and tf = tf and cfg = cfg]) auto
  have "\<exists>r. run_loop inherited (Suc (length ks)) clock max_it tls g ?run' = Some (Returned r)
        \<and> map node (run_log r) = map node (run_log ?run') @ chain_names g (k' # ks)
        \<and> map state_snapshot (run_log r) = map state_snapshot (run_log ?run') @ ss'
        \<and> finished r \<and> current_node r = None \<and> run_id r = run_id ?run'"
    using cfg(3) t(4) rest Cons.prems(5) by (intro Cons.IH) simp_all
  then show ?case
    using step t(3) cfg(1) by (auto simp: chain_names_Cons)
qed

section \<open>Claims about the branch decision\<close>

text \<open>
  Claim C1, as the code has it. When \<open>condition_key\<close> is \<open>None\<close> or the empty string, the
  decision is \<open>next_node\<close>. When it names a numeric field of the state, the operator is one
  of the five and the threshold is set, the decision is \<open>next_on_success\<close> if the field's
  value compared with the threshold by the operator is true; if it is false, the decision is
  \<open>next_on_failure\<close> when that is neither \<open>None\<close> nor the empty string, and \<open>next_node\<close>
  otherwise. In particular, with \<open>>=\<close> and threshold 0.8 on \<open>quality_score\<close>, the values
  0.8 and 0.81 go to \<open>next_on_success\<close> and 0.79 goes to \<open>next_on_failure\<close>, or to
  \<open>next_node\<close> when \<open>next_on_failure\<close> is \<open>None\<close> or empty.
\<close>

theorem decide_next_node_branch:
  "(\<not> truthy (condition_key cfg) \<longrightarrow> decide_next_node inherited cfg st = Inr (next_node cfg))
   \<and> (truthy (condition_key cfg) \<and> condition_key cfg = Some key
        \<and> getattr_state inherited st key = Inr (PyNum x)
        \<and> condition_op cfg = Some op \<and> op \<in> set supported_ops
        \<and> condition_value cfg = Some t \<longrightarrow>
        decide_next_node inherited cfg st =
          Inr (if compare_spec op x t then next_on_success cfg
               else if truthy (next_on_failure cfg) then next_on_failure cfg
               else next_node cfg))
   \<and> (condition_key cfg = Some ''quality_score'' \<and> condition_op cfg = Some ''>=''
        \<and> condition_value cfg = Some (8 / 10) \<longrightarrow>
        (quality_score st = 8 / 10 \<or> quality_score st = 81 / 100 \<longrightarrow>
           decide_next_node inherited cfg st = Inr (next_on_success cfg))
        \<and> (quality_score st = 79 / 100 \<longrightarrow>
           decide_next_node inherited cfg st =
             Inr (if truthy (next_on_failure cfg) then next_on_failure cfg else next_node cfg)))"
proof (intro conjI impI)
  assume "\<not> truthy (condition_key cfg)"
  then show "decide_next_node inherited cfg st = Inr (next_node cfg)"
    by (simp add: decide_next_node_def)
next
  assume "truthy (condition_key cfg) \<and> condition_key cfg = Some key
        \<and> getattr_state inherited st key = Inr (PyNum x)
        \<and> condition_op cfg = Some op \<and> op \<in> set supported_ops
        \<and> condition_value cfg = Some t"
  then show "decide_next_node inherited cfg st =
          Inr (if compare_spec op x t then next_on_success cfg
               else if truthy (next_on_failure cfg) then next_on_failure cfg
               else next_node cfg)"
    by (auto simp: decide_next_node_def eval_condition_num py_or_def)
next
  assume h: "condition_key cfg = Some ''quality_score'' \<and> condition_op cfg = Some ''>=''
        \<and> condition_value cfg = Some (8 / 10)"
    and q: "quality_score st = 8 / 10 \<or> quality_score st = 81 / 100"
  from h q show "decide_next_node inherited cfg st = Inr (next_on_success cfg)"
    by (auto simp: decide_next_node_def getattr_state_def eval_condition_def py_order_def)
next
  assume h: "condition_key cfg = Some ''quality_score'' \<and> condition_op cfg = Some ''>=''
        \<and> condition_value cfg = Some (8 / 10)"
    and q: "quality_score st = 79 / 100"
  from h q show "decide_next_node inherited cfg st =
             Inr (if truthy (next_on_failure cfg) then next_on_failure cfg else next_node cfg)"
    by (auto simp: decide_next_node_def getattr_state_def eval_condition_def py_order_def py_or_def)
qed

text \<open>
  The theorem at concrete nodes: no condition field; the three values of the
  specification's example; \<open>next_on_failure\<close> unset; and the operator \<open><\<close>.
\<close>

theorem decide_next_node_branch_witness:
  "decide_next_node inherited_example (cfg_branch\<lparr>condition_key := None\<rparr>) st0 = Inr (Some ''retry'')
   \<and> decide_next_node inherited_example cfg_branch (st0\<lparr>quality_score := 8 / 10\<rparr>) = Inr (Some ''done'')
   \<and> decide_next_node inherited_example cfg_branch (st0\<lparr>quality_score := 81 / 100\<rparr>) = Inr (Some ''done'')
   \<and> decide_next_node inherited_example cfg_branch (st0\<lparr>quality_score := 79 / 100\<rparr>) = Inr (Some ''extract'')
   \<and> decide_next_node inherited_example (cfg_branch\<lparr>next_on_failure := None\<rparr>) (st0\<lparr>quality_score := 79 / 100\<rparr>)
       = Inr (Some ''retry'')
   \<and> decide_next_node inherited_example (cfg_branch\<lparr>condition_op := Some ''<''\<rparr>) (st0\<lparr>quality_score := 79 / 100\<rparr>)
       = Inr (Some ''done'')"
proof -
  let ?lo = "st0\<lparr>quality_score := 79 / 100\<rparr>"
  have a: "decide_next_node inherited_example (cfg_branch\<lparr>condition_key := None\<rparr>) st0 = Inr (Some ''retry'')"
    using decide_next_node_branch [where cfg = "cfg_branch\<lparr>condition_key := None\<rparr>" and st = st0
        and inherited = inherited_example]
    by (simp add: cfg_branch_def)
  have b: "decide_next_node inherited_example cfg_branch (st0\<lparr>quality_score := 8 / 10\<rparr>) = Inr (Some ''done'')"
    using decide_next_node_branch [where cfg = cfg_branch and st = "st0\<lparr>quality_score := 8 / 10\<rparr>"
        and inherited = inherited_example]
    by (simp add: cfg_branch_def st0_def)
  have c: "decide_next_node inherited_example cfg_branch (st0\<lparr>quality_score := 81 / 100\<rparr>) = Inr (Some ''done'')"
    using decide_next_node_branch [where cfg = cfg_branch and st = "st0\<lparr>quality_score := 81 / 100\<rparr>"
        and inherited = inherited_example]
    by (simp add: cfg_branch_def st0_def)
  have d: "decide_next_node inherited_example cfg_branch ?lo = Inr (Some ''extract'')"
    using decide_next_node_branch [where cfg = cfg_branch and st = ?lo and inherited = inherited_example]
    by (simp add: cfg_branch_def st0_def)
  have e: "decide_next_node inherited_example (cfg_branch\<lparr>next_on_failure := None\<rparr>) ?lo = Inr (Some ''retry'')"
    using decide_next_node_branch [where cfg = "cfg_branch\<lparr>next_on_failure := None\<rparr>" and st = ?lo
        and inherited = inherited_example]
    by (simp add: cfg_branch_def st0_def)
  have f: "decide_next_node inherited_example (cfg_branch\<lparr>condition_op := Some ''<''\<rparr>) ?lo = Inr (Some ''done'')"
    using decide_next_node_branch [where cfg = "cfg_branch\<lparr>condition_op := Some ''<''\<rparr>"
        and st = ?lo and key = "''quality_score''" and x = "79 / 100" and op = "''<''" and t = "8 / 10"
        and inherited = inherited_example]
    by (simp add: cfg_branch_def st0_def getattr_state_def supported_ops_def compare_spec_def)
  from a b c d e f show ?thesis by simp
qed

text \<open>
  Claim C1 as the specification states it promises \<open>next_on_failure\<close> whenever that edge
  is set, for every node and state. With \<open>next_on_failure\<close> the empty string the edge is
  set, the comparison \<open>0.79 >= 0.8\<close> is false, and the decision is \<open>next_node\<close>:
  \<open>x or y\<close> skips an empty string. And with the condition field \<open>code\<close>, a string, no
  edge is returned: \<open>>=\<close> between a string and a float raises \<open>TypeError\<close>.
\<close>

theorem decide_next_node_empty_failure_counterexample:
  "next_on_failure (cfg_branch\<lparr>next_on_failure := Some ''''\<rparr>) \<noteq> None
   \<and> decide_next_node inherited_example (cfg_branch\<lparr>next_on_failure := Some ''''\<rparr>) (st0\<lparr>quality_score := 79 / 100\<rparr>)
       = Inr (Some ''retry'')
   \<and> decide_next_node inherited_example (cfg_branch\<lparr>next_on_failure := Some ''''\<rparr>) (st0\<lparr>quality_score := 79 / 100\<rparr>)
       \<noteq> Inr (next_on_failure (cfg_branch\<lparr>next_on_failure := Some ''''\<rparr>))
   \<and> decide_next_node inherited_example (cfg_branch\<lparr>condition_key := Some ''code''\<rparr>) st0 = Inl (TypeError ''>='')"
  by (simp add: cfg_branch_def st0_def decide_next_node_def getattr_state_def eval_condition_def
      py_order_def py_or_def)

text \<open>
  Claim C4, as the code has it. The \<open>Literal\<close> type of \<open>condition_op\<close> admits only the five
  operators and \<open>None\<close>, so a validated node carries no other operator. The decision itself
  has no check: given a condition field that names an attribute of the state, a threshold
  and an operator outside the five, it raises nothing and treats the comparison as false,
  returning \<open>next_on_failure\<close> (when neither \<open>None\<close> nor empty) or else \<open>next_node\<close>.
\<close>

theorem unknown_operator_treated_as_false:
  "truthy (condition_key cfg) \<Longrightarrow> condition_key cfg = Some key \<Longrightarrow>
   getattr_state inherited st key = Inr v \<Longrightarrow>
   condition_op cfg = Some op \<Longrightarrow> op \<notin> set supported_ops \<Longrightarrow>
   condition_value cfg = Some t \<Longrightarrow>
   \<not> condition_op_literal (condition_op cfg)
   \<and> decide_next_node inherited cfg st =
       Inr (if truthy (next_on_failure cfg) then next_on_failure cfg else next_node cfg)"
  by (auto simp: decide_next_node_def condition_op_literal_def eval_condition_def
      supported_ops_def py_or_def)

theorem unknown_operator_treated_as_false_witness:
  "''!='' \<notin> set supported_ops
   \<and> \<not> condition_op_literal (Some ''!='')
   \<and> decide_next_node inherited_example (cfg_branch\<lparr>condition_op := Some ''!=''\<rparr>) st0 = Inr (Some ''extract'')"
  using unknown_operator_treated_as_false [where cfg = "cfg_branch\<lparr>condition_op := Some ''!=''\<rparr>"
      and key = "''quality_score''" and st = st0 and v = "PyNum 0" and op = "''!=''" and t = "8 / 10"
      and inherited = inherited_example]
  by (simp add: cfg_branch_def st0_def getattr_state_def supported_ops_def)

text \<open>
  Claim C4 as the specification states it asks for an error. With the operator \<open>!=\<close> and
  a quality score of 1 against the threshold 0.8, the decision returns the failure edge.
\<close>

theorem unknown_operator_counterexample:
  "condition_op (cfg_branch\<lparr>condition_op := Some ''!=''\<rparr>) = Some ''!=''
   \<and> ''!='' \<notin> set supported_ops
   \<and> decide_next_node inherited_example (cfg_branch\<lparr>condition_op := Some ''!=''\<rparr>) (st0\<lparr>quality_score := 1\<rparr>)
       = Inr (Some ''extract'')"
  by (simp add: cfg_branch_def st0_def decide_next_node_def getattr_state_def eval_condition_def
      py_or_def supported_ops_def)

text \<open>
  Claim C9, as the code has it. A node whose condition field names an attribute of the
  state while the operator or the threshold is \<open>None\<close> is executed like a node without a
  condition: the decision is \<open>next_node\<close>, and nothing is raised.
\<close>

theorem incomplete_condition_linear_edge:
  "truthy (condition_key cfg) \<Longrightarrow> condition_key cfg = Some key \<Longrightarrow>
   getattr_state inherited st key = Inr v \<Longrightarrow>
   condition_op cfg = None \<or> condition_value cfg = None \<Longrightarrow>
   decide_next_node inherited cfg st = Inr (next_node cfg)"
  by (auto simp: decide_next_node_def split: option.splits)

theorem incomplete_condition_linear_edge_witness:
  "truthy (condition_key cfg_partial) \<and> condition_op cfg_partial = None
   \<and> decide_next_node inherited_example cfg_partial st0 = Inr None"
  using incomplete_condition_linear_edge [where cfg = cfg_partial and key = "''quality_score''"
      and st = st0 and v = "PyNum 0" and inherited = inherited_example]
  by (simp add: cfg_partial_def st0_def getattr_state_def)

text \<open>
  Claim C9 as the specification states it asks for a rejection. The graph whose only node
  has a condition field and no operator runs to the end: the node is executed and logged,
  and the run finishes through \<open>next_node\<close>.
\<close>

theorem incomplete_condition_counterexample:
  "condition_key cfg_partial = Some ''quality_score'' \<and> condition_op cfg_partial = None
   \<and> decide_next_node inherited_example cfg_partial st0 = Inr (next_node cfg_partial)
   \<and> map_option fst (run_graph inherited_example 1 (\<lambda>n. 0) ''r1'' \<lparr>max_iterations = 20\<rparr> world_partial ''g'' st0)
       = Some (Inr \<lparr>run_id = ''r1'', graph_id = ''g'', current_node = None, state = st0,
                    run_log = [\<lparr>node = ''a'', timestamp = 0, state_snapshot = st0\<rparr>],
                    finished = True\<rparr>)"
  by (simp add: cfg_partial_def st0_def decide_next_node_def getattr_state_def run_graph_def
      world_partial_def graph_store_get_def run_store_create_def loop_step_def tool_registry_get_def
      tool_keep_def run_store_update_def Let_def)

section \<open>Claims about the registry and the run store\<close>

text \<open>
  Claim C10. \<open>register\<close> raises \<open>TypeError\<close> for an object that is not callable and
  leaves the dictionary as it was. For a callable it stores the object under the name,
  replacing what was there and touching no other name, so \<open>get\<close> returns it; after two
  registrations under one name \<open>get\<close> returns the second.
\<close>

theorem register_contract:
  "(\<not> callable func \<longrightarrow>
      register tls nm func = (Inl (TypeError ''Tool must be callable''), tls))
   \<and> (callable func \<longrightarrow>
        register tls nm func = (Inr (), tls(nm \<mapsto> func))
        \<and> tool_registry_get (snd (register tls nm func)) nm = Inr func
        \<and> (\<forall>other. other \<noteq> nm \<longrightarrow>
              tool_registry_get (snd (register tls nm func)) other = tool_registry_get tls other))
   \<and> (callable func \<and> callable func' \<longrightarrow>
        tool_registry_get (snd (register (snd (register tls nm func)) nm func')) nm = Inr func')"
  by (simp add: register_def tool_registry_get_def)

theorem register_contract_witness:
  "\<not> callable (NotCallable (AnyInt 3))
   \<and> register [''keep'' \<mapsto> tool_keep] ''t'' (NotCallable (AnyInt 3))
       = (Inl (TypeError ''Tool must be callable''), [''keep'' \<mapsto> tool_keep])
   \<and> callable tool_pass
   \<and> tool_registry_get (snd (register [''keep'' \<mapsto> tool_keep] ''keep'' tool_pass)) ''keep''
       = Inr tool_pass
   \<and> tool_registry_get (snd (register (snd (register Map.empty ''t'' tool_keep)) ''t'' tool_pass)) ''t''
       = Inr tool_pass"
proof -
  have nc: "\<not> callable (NotCallable (AnyInt 3))" by simp
  have cp: "callable tool_pass" by (simp add: tool_pass_def)
  have ck: "callable tool_keep" by (simp add: tool_keep_def)
  have a: "register [''keep'' \<mapsto> tool_keep] ''t'' (NotCallable (AnyInt 3))
       = (Inl (TypeError ''Tool must be callable''), [''keep'' \<mapsto> tool_keep])"
    using register_contract [where func = "NotCallable (AnyInt 3)"
        and tls = "[''keep'' \<mapsto> tool_keep]" and nm = "''t''" and func' = tool_keep] nc
    by blast
  have b: "tool_registry_get (snd (register [''keep'' \<mapsto> tool_keep] ''keep'' tool_pass)) ''keep''
       = Inr tool_pass"
    using register_contract [where func = tool_pass and tls = "[''keep'' \<mapsto> tool_keep]"
        and nm = "''keep''" and func' = tool_keep] cp
    by blast
  have c: "tool_registry_get (snd (register (snd (register Map.empty ''t'' tool_keep)) ''t'' tool_pass)) ''t''
       = Inr tool_pass"
    using register_contract [where func = tool_keep and tls = Map.empty and nm = "''t''"
        and func' = tool_pass] cp ck
    by blast
  from nc cp a b c show ?thesis by blast
qed

text \<open>
  Claim C7. For a graph id that the graph store does not hold, \<open>create\<close> raises
  \<open>KeyError\<close> (the not-found error) and the stores are as before, so no run was recorded;
  \<open>run_graph\<close> on such an id ends the same way, whatever the fuel.
  For a known graph id it returns the run with the generated id, the graph's start node as
  current node, the given state, an empty log and \<open>finished = False\<close>; the run store holds
  that run under its id and its other records are untouched; when the generated id is new
  to the store, the store has exactly one record more.
\<close>

theorem run_store_create_contract:
  "(graphs w gid = None \<longrightarrow>
      run_store_create new_id w gid st = (Inl (KeyError (graph_not_found gid)), w)
      \<and> run_graph inherited fuel clock new_id eng w gid st = Some (Inl (KeyError (graph_not_found gid)), w))
   \<and> (graphs w gid = Some g \<longrightarrow>
        run_store_create new_id w gid st =
          (Inr \<lparr>run_id = new_id, graph_id = gid, current_node = Some (start_node g),
                state = st, run_log = [], finished = False\<rparr>,
           w\<lparr>runs := (runs w)(new_id \<mapsto>
                \<lparr>run_id = new_id, graph_id = gid, current_node = Some (start_node g),
                 state = st, run_log = [], finished = False\<rparr>)\<rparr>)
        \<and> run_store_get (snd (run_store_create new_id w gid st)) new_id =
            fst (run_store_create new_id w gid st)
        \<and> (\<forall>other. other \<noteq> new_id \<longrightarrow>
              runs (snd (run_store_create new_id w gid st)) other = runs w other)
        \<and> (new_id \<notin> dom (runs w) \<longrightarrow>
              dom (runs (snd (run_store_create new_id w gid st))) = insert new_id (dom (runs w))))"
  by (simp add: run_store_create_def graph_store_get_def run_store_get_def run_graph_def Let_def)

theorem run_store_create_contract_witness:
  "graphs world_partial ''nope'' = None
   \<and> run_store_create ''r1'' world_partial ''nope'' st0
       = (Inl (KeyError (graph_not_found ''nope'')), world_partial)
   \<and> runs (snd (run_store_create ''r1'' world_partial ''nope'' st0)) = Map.empty
   \<and> run_graph inherited_example 5 (\<lambda>n. 0) ''r1'' \<lparr>max_iterations = 20\<rparr> world_partial ''nope'' st0
       = Some (Inl (KeyError (graph_not_found ''nope'')), world_partial)
   \<and> ''r1'' \<notin> dom (runs world_partial)
   \<and> fst (run_store_create ''r1'' world_partial ''g'' st0)
       = Inr \<lparr>run_id = ''r1'', graph_id = ''g'', current_node = Some ''a'',
                state = st0, run_log = [], finished = False\<rparr>
   \<and> dom (runs (snd (run_store_create ''r1'' world_partial ''g'' st0))) = {''r1''}"
  using run_store_create_contract [where w = world_partial and gid = "''nope''" and new_id = "''r1''"
      and st = st0 and fuel = 5 and clock = "\<lambda>n. 0" and eng = "\<lparr>max_iterations = 20\<rparr>"
      and inherited = inherited_example]
    run_store_create_contract [where w = world_partial and gid = "''g''" and new_id = "''r1''"
      and st = st0 and fuel = 5 and clock = "\<lambda>n. 0" and eng = "\<lparr>max_iterations = 20\<rparr>"
      and inherited = inherited_example and g = "\<lparr>graph_ident = ''g'', start_node = ''a'', nodes = [''a'' \<mapsto> cfg_partial]\<rparr>"]
  by (simp add: world_partial_def)

section \<open>Claims about the execution loop\<close>




text \<open>
  Claim C3 asks that \<open>run_graph\<close> ends on every graph and every registered tool, and the
  engine's guard is there, in the code's own words, to avoid infinite loops. It does not
  on this input: the graph \<open>graph_extract_loop\<close> is stored, \<open>extract_functions\<close> is
  registered (its parser returning), the engine has the default \<open>max_iterations = 20\<close> and
  the initial state has \<open>iteration = 0\<close>. The tool never changes \<open>iteration\<close>, the guard
  never trips, and \<open>run_graph\<close> has no result whatever the fuel: the loop never ends.
\<close>

theorem run_graph_uncounted_loop_diverges:
  "run_graph inherited fuel clock new_id \<lparr>max_iterations = 20\<rparr>
     \<lparr>graphs = gs(''loop'' \<mapsto> graph_extract_loop), runs = rs,
      tools = tls(''extract_functions'' \<mapsto> Callable (extract_functions (\<lambda>c. Inr (names c))))\<rparr>
     ''loop'' (st\<lparr>iteration := 0\<rparr>) = None"
proof -
  let ?w = "\<lparr>graphs = gs(''loop'' \<mapsto> graph_extract_loop), runs = rs,
      tools = tls(''extract_functions'' \<mapsto> Callable (extract_functions (\<lambda>c. Inr (names c))))\<rparr>"
  let ?cfg = "cfg_of ''extract'' ''extract_functions'' (Some ''extract'')"
  have g: "graphs ?w ''loop'' = Some graph_extract_loop"
    by simp
  have n: "nodes graph_extract_loop ''extract'' = Some ?cfg"
    by (simp add: graph_extract_loop_def)
  have tl: "tools ?w (tool ?cfg) = Some (Callable (extract_functions (\<lambda>c. Inr (names c))))"
    by (simp add: cfg_of_def)
  have same: "\<forall>s. \<exists>s'. call_tool (Callable (extract_functions (\<lambda>c. Inr (names c)))) s = Inr s'
      \<and> iteration s' = iteration s"
    by (simp add: extract_functions_def)
  have loop: "\<forall>s. decide_next_node inherited ?cfg s = Inr (Some ''extract'')"
    by (simp add: decide_next_node_def cfg_of_def)
  have "run_loop inherited fuel clock 20 (tools ?w) graph_extract_loop
      \<lparr>run_id = new_id, graph_id = ''loop'', current_node = Some (start_node graph_extract_loop),
       state = st\<lparr>iteration := 0\<rparr>, run_log = [], finished = False\<rparr> = None"
    by (rule uncounted_loop_never_returns [where tls = "tools ?w", OF n tl same loop])
      (simp_all add: graph_extract_loop_def)
  then show ?thesis
    by (simp add: run_graph_known_graph [OF g])
qed

text \<open>
  Claim C5, as the code has it. The guard comes before the node lookup. In a pass that
  gets past the guard (the run has a current node, is not finished, and
  \<open>iteration < max_iterations\<close>), a current node that the graph does not hold ends the
  loop with \<open>KeyError\<close> carrying the node name; a node whose tool the registry does not
  hold ends it with \<open>KeyError\<close> carrying the registry's message. Both are the same
  exception class, and the run is left as it was. A pass that finds
  \<open>iteration >= max_iterations\<close> at such a node ends the run as finished, without a
  lookup and without an error.
\<close>

theorem dangling_node_raises_KeyError:
  assumes "current_node run = Some cur" "\<not> finished run" "iteration (state run) < max_it"
  shows "(nodes graph cur = None \<longrightarrow>
            run_loop inherited (Suc fuel) clock max_it tls graph run = Some (Raised (KeyError cur) run))
         \<and> (\<forall>cfg. nodes graph cur = Some cfg \<and> tls (tool cfg) = None \<longrightarrow>
              run_loop inherited (Suc fuel) clock max_it tls graph run
                = Some (Raised (KeyError (tool_not_registered (tool cfg))) run))
         \<and> (\<forall>halted :: GraphRun. current_node halted = Some cur \<and> \<not> finished halted
                \<and> max_it \<le> iteration (state halted) \<longrightarrow>
              run_loop inherited (Suc fuel) clock max_it tls graph halted
                = Some (Returned (halted\<lparr>finished := True\<rparr>)))"
  using assms by (simp add: loop_step_def tool_registry_get_def)

theorem dangling_node_raises_KeyError_witness:
  "run_loop inherited_example (Suc 0) (\<lambda>n. 0) 20 (tools world_dangling) graph_dangling
      \<lparr>run_id = ''r1'', graph_id = ''g'', current_node = Some ''ghost'', state = st0, run_log = [],
       finished = False\<rparr>
     = Some (Raised (KeyError ''ghost'')
         \<lparr>run_id = ''r1'', graph_id = ''g'', current_node = Some ''ghost'', state = st0, run_log = [],
          finished = False\<rparr>)
   \<and> run_loop inherited_example (Suc 0) (\<lambda>n. 0) 20 (tools world_no_tool) graph_spin
      \<lparr>run_id = ''r1'', graph_id = ''g'', current_node = Some ''a'', state = st0, run_log = [],
       finished = False\<rparr>
     = Some (Raised (KeyError (tool_not_registered ''t''))
         \<lparr>run_id = ''r1'', graph_id = ''g'', current_node = Some ''a'', state = st0, run_log = [],
          finished = False\<rparr>)
   \<and> run_loop inherited_example (Suc 0) (\<lambda>n. 0) 20 (tools world_dangling) graph_dangling
      \<lparr>run_id = ''r1'', graph_id = ''g'', current_node = Some ''ghost'',
       state = st0\<lparr>iteration := 20\<rparr>, run_log = [], finished = False\<rparr>
     = Some (Returned
         \<lparr>run_id = ''r1'', graph_id = ''g'', current_node = Some ''ghost'',
          state = st0\<lparr>iteration := 20\<rparr>, run_log = [], finished = True\<rparr>)"
proof -
  let ?r = "\<lparr>run_id = ''r1'', graph_id = ''g'', current_node = Some ''ghost'', state = st0,
             run_log = [], finished = False\<rparr>"
  let ?q = "\<lparr>run_id = ''r1'', graph_id = ''g'', current_node = Some ''a'', state = st0,
             run_log = [], finished = False\<rparr>"
  have a: "run_loop inherited_example (Suc 0) (\<lambda>n. 0) 20 (tools world_dangling) graph_dangling ?r
     = Some (Raised (KeyError ''ghost'') ?r)"
    using dangling_node_raises_KeyError [where run = ?r and cur = "''ghost''" and max_it = 20
        and graph = graph_dangling and fuel = 0 and tls = "tools world_dangling" and clock = "\<lambda>n. 0"
        and inherited = inherited_example]
    by (simp add: st0_def graph_dangling_def)
  have b: "run_loop inherited_example (Suc 0) (\<lambda>n. 0) 20 (tools world_no_tool) graph_spin ?q
     = Some (Raised (KeyError (tool_not_registered ''t'')) ?q)"
    using dangling_node_raises_KeyError [where run = ?q and cur = "''a''" and max_it = 20
        and graph = graph_spin and fuel = 0 and tls = "tools world_no_tool" and clock = "\<lambda>n. 0"
        and inherited = inherited_example]
    by (simp add: st0_def graph_spin_def world_no_tool_def cfg_spin_def)
  let ?h = "\<lparr>run_id = ''r1'', graph_id = ''g'', current_node = Some ''ghost'',
             state = st0\<lparr>iteration := 20\<rparr>, run_log = [], finished = False\<rparr>"
  have i: "current_node ?r = Some ''ghost''" "\<not> finished ?r" "iteration (state ?r) < 20"
    by (simp_all add: st0_def)
  have "current_node ?h = Some ''ghost'' \<and> \<not> finished ?h \<and> 20 \<le> iteration (state ?h)"
    by simp
  with dangling_node_raises_KeyError [where inherited = inherited_example and fuel = 0
      and clock = "\<lambda>n. 0" and tls = "tools world_dangling" and graph = graph_dangling, OF i]
  have "run_loop inherited_example (Suc 0) (\<lambda>n. 0) 20 (tools world_dangling) graph_dangling ?h
     = Some (Returned (?h\<lparr>finished := True\<rparr>))"
    by blast
  then have c: "run_loop inherited_example (Suc 0) (\<lambda>n. 0) 20 (tools world_dangling) graph_dangling ?h
     = Some (Returned
         \<lparr>run_id = ''r1'', graph_id = ''g'', current_node = Some ''ghost'',
          state = st0\<lparr>iteration := 20\<rparr>, run_log = [], finished = True\<rparr>)"
    by simp
  from a b c show ?thesis by blast
qed

text \<open>
  Claim C5 as the specification states it asks for two distinct errors. A run over a
  dangling edge and a run over an unregistered tool both end in a \<open>KeyError\<close>, and the
  endpoint answers both with status 404.
\<close>

theorem dangling_node_counterexample:
  "map_option fst (run_graph inherited_example 2 (\<lambda>n. 0) ''r1'' \<lparr>max_iterations = 20\<rparr> world_dangling ''g'' st0)
     = Some (Inl (KeyError ''ghost''))
   \<and> map_option fst (run_graph inherited_example 2 (\<lambda>n. 0) ''r1'' \<lparr>max_iterations = 20\<rparr> world_no_tool ''g'' st0)
     = Some (Inl (KeyError (tool_not_registered ''t'')))
   \<and> is_KeyError (KeyError ''ghost'') \<and> is_KeyError (KeyError (tool_not_registered ''t''))
   \<and> map_option (run_graph_endpoint \<circ> fst)
        (run_graph inherited_example 2 (\<lambda>n. 0) ''r1'' \<lparr>max_iterations = 20\<rparr> world_dangling ''g'' st0)
     = Some (HTTPException 404)
   \<and> map_option (run_graph_endpoint \<circ> fst)
        (run_graph inherited_example 2 (\<lambda>n. 0) ''r1'' \<lparr>max_iterations = 20\<rparr> world_no_tool ''g'' st0)
     = Some (HTTPException 404)"
  by (simp add: run_graph_def graph_store_get_def run_store_create_def run_store_update_def
      world_dangling_def world_no_tool_def graph_dangling_def graph_spin_def cfg_spin_def
      loop_step_def tool_registry_get_def tool_keep_def decide_next_node_def st0_def Let_def
      numeral_2_eq_2)

text \<open>
  Claim C6. Take a stored graph in which no node has a condition field, whose
  \<open>next_node\<close> chain from the start node ends at a node without successor, whose tools
  along the chain are registered and return, and where the state before each execution is
  below the guard. Then \<open>run_graph\<close> returns (with any fuel from the chain's length on) a
  finished run with no current node; its log names the nodes of the chain in order (by
  their \<open>name\<close> fields, which are the keys when every node is stored under its name),
  its snapshots are the states along the chain, and its length is the number of distinct
  nodes of the chain.
\<close>

theorem linear_graph_follows_chain:
  assumes "graphs w gid = Some g"
    and "\<forall>cfg \<in> ran (nodes g). \<not> truthy (condition_key cfg)"
    and "next_chain g (start_node g # ks)"
    and "chain_states (tools w) g (start_node g # ks) s0 = Some ss"
    and "\<forall>s \<in> set (butlast (s0 # ss)). iteration s < max_iterations eng"
  shows "\<exists>r w'. run_graph inherited (Suc (length ks) + extra) clock new_id eng w gid s0 = Some (Inr r, w')
     \<and> map node (run_log r) = chain_names g (start_node g # ks)
     \<and> map state_snapshot (run_log r) = ss
     \<and> length (run_log r) = card (set (start_node g # ks))
     \<and> finished r \<and> current_node r = None
     \<and> ((\<forall>k cfg. nodes g k = Some cfg \<longrightarrow> name cfg = k) \<longrightarrow>
          map node (run_log r) = start_node g # ks)"
proof -
  let ?run = "\<lparr>run_id = new_id, graph_id = gid, current_node = Some (start_node g),
          state = s0, run_log = [], finished = False\<rparr>"
  have "\<exists>r. run_loop inherited (Suc (length ks)) clock (max_iterations eng) (tools w) g ?run = Some (Returned r)
        \<and> map node (run_log r) = map node (run_log ?run) @ chain_names g (start_node g # ks)
        \<and> map state_snapshot (run_log r) = map state_snapshot (run_log ?run) @ ss
        \<and> finished r \<and> current_node r = None \<and> run_id r = run_id ?run"
    using assms(3,4,5) by (intro chain_run [OF assms(2)]) simp_all
  then obtain r where r: "run_loop inherited (Suc (length ks)) clock (max_iterations eng) (tools w) g ?run
        = Some (Returned r)"
    "map node (run_log r) = chain_names g (start_node g # ks)"
    "map state_snapshot (run_log r) = ss" "finished r" "current_node r = None"
    by auto
  from run_loop_more_fuel [OF r(1), of extra]
  have more: "run_loop inherited (Suc (length ks) + extra) clock (max_iterations eng) (tools w) g ?run
      = Some (Returned r)" .
  have "length (run_log r) = length ss" using r(3) by (metis length_map)
  also have "\<dots> = length (start_node g # ks)" using chain_states_length [OF assms(4)] .
  also have "\<dots> = card (set (start_node g # ks))"
    using next_chain_distinct [OF assms(3)] by (simp only: distinct_card)
  finally have len: "length (run_log r) = card (set (start_node g # ks))" .
  have keys: "(\<forall>k cfg. nodes g k = Some cfg \<longrightarrow> name cfg = k) \<longrightarrow>
          map node (run_log r) = start_node g # ks"
    using r(2) chain_names_keys [OF _ next_chain_dom [OF assms(3)]] by auto
  show ?thesis
    using more r(2-5) len keys by (simp add: run_graph_known_graph [OF assms(1)])
qed

text \<open>The theorem on the linear graph of three nodes.\<close>

theorem linear_graph_follows_chain_witness:
  "\<exists>r w'. run_graph inherited_example (Suc (length [''b'', ''c'']) + 0) (\<lambda>n. 0) ''r1'' \<lparr>max_iterations = 20\<rparr>
              world_linear ''lin'' st0 = Some (Inr r, w')
     \<and> map node (run_log r) = [''a'', ''b'', ''c'']
     \<and> map state_snapshot (run_log r) = [st0, st0, st0\<lparr>iteration := 1\<rparr>]
     \<and> length (run_log r) = card {''a'', ''b'', ''c''}
     \<and> finished r \<and> current_node r = None"
proof -
  have g: "graphs world_linear ''lin'' = Some graph_linear"
    by (simp add: world_linear_def)
  have u: "\<forall>cfg \<in> ran (nodes graph_linear). \<not> truthy (condition_key cfg)"
    by (auto simp: graph_linear_def cfg_of_def ran_def split: if_splits)
  have s: "start_node graph_linear = ''a''"
    by (simp add: graph_linear_def)
  have c: "next_chain graph_linear (start_node graph_linear # [''b'', ''c''])"
    by (simp add: graph_linear_def cfg_of_def)
  have t: "chain_states (tools world_linear) graph_linear (start_node graph_linear # [''b'', ''c'']) st0
      = Some [st0, st0, st0\<lparr>iteration := 1\<rparr>]"
    by (simp add: graph_linear_def cfg_of_def world_linear_def tool_keep_def tool_pass_def st0_def)
  have b: "\<forall>s \<in> set (butlast (st0 # [st0, st0, st0\<lparr>iteration := 1\<rparr>])).
      iteration s < max_iterations \<lparr>max_iterations = 20\<rparr>"
    by (simp add: st0_def)
  have k: "\<forall>k cfg. nodes graph_linear k = Some cfg \<longrightarrow> name cfg = k"
    by (auto simp: graph_linear_def cfg_of_def split: if_splits)
  show ?thesis
    using linear_graph_follows_chain [where extra = 0 and clock = "\<lambda>n. 0" and new_id = "''r1''"
        and inherited = inherited_example, OF g u c t b] k
    unfolding s by auto
qed

end
